theory Spec2Isabelle
  imports Main
begin

section \<open>Python values, exceptions and calls\<close>

text \<open>
  The two modules \<^verbatim>\<open>decorator_pattern/main.py\<close> and \<^verbatim>\<open>observer_pattern/main.py\<close> are
  embedded as pure functions over an explicit standard output: every \<^verbatim>\<open>print\<close> of the
  source appends one line to it. A raised exception is the \<open>Inl\<close> branch of the result.
\<close>

datatype exn = TypeError | KeyError | AttributeError | NotImplementedError

text \<open>\<^verbatim>\<open>class UserRole(IntEnum)\<close>: \<open>GUEST = 1\<close>, \<open>OPERATOR = 2\<close>, \<open>ADMIN = 3\<close>.\<close>

datatype UserRole = GUEST | OPERATOR | ADMIN

fun role_value :: "UserRole \<Rightarrow> int" where
  "role_value GUEST = 1"
| "role_value OPERATOR = 2"
| "role_value ADMIN = 3"

text \<open>
  The Python values that reach the decorators: \<^verbatim>\<open>None\<close>, integers, strings, members of
  \<^verbatim>\<open>UserRole\<close> and dictionaries with string keys (in insertion order).
\<close>

datatype pyval =
    PyNone
  | PyInt int
  | PyStr string
  | PyRole UserRole
  | PyDict "(string \<times> pyval) list"

text \<open>Truth value of an object, as \<^verbatim>\<open>if result:\<close> tests it.\<close>

fun truthy :: "pyval \<Rightarrow> bool" where
  "truthy PyNone = False"
| "truthy (PyInt n) = (n \<noteq> 0)"
| "truthy (PyStr s) = (s \<noteq> [])"
| "truthy (PyRole r) = (role_value r \<noteq> 0)"
| "truthy (PyDict d) = (d \<noteq> [])"

text \<open>
  \<^verbatim>\<open>user_role <= role\<close> with \<open>role\<close> a member of the \<^verbatim>\<open>IntEnum\<close>: an integer comparison when
  the left operand is an integer or a member, \<^verbatim>\<open>TypeError\<close> for \<^verbatim>\<open>None\<close>, a string or a
  dictionary.
\<close>

fun py_le_role :: "pyval \<Rightarrow> UserRole \<Rightarrow> exn + bool" where
  "py_le_role (PyInt n) role = Inr (n \<le> role_value role)"
| "py_le_role (PyRole r) role = Inr (role_value r \<le> role_value role)"
| "py_le_role PyNone role = Inl TypeError"
| "py_le_role (PyStr s) role = Inl TypeError"
| "py_le_role (PyDict d) role = Inl TypeError"

text \<open>\<^verbatim>\<open>result['order_id']\<close>: only a dictionary holding the key has an item.\<close>

fun py_getitem :: "pyval \<Rightarrow> string \<Rightarrow> exn + pyval" where
  "py_getitem (PyDict d) k = (case map_of d k of None \<Rightarrow> Inl KeyError | Some v \<Rightarrow> Inr v)"
| "py_getitem PyNone k = Inl TypeError"
| "py_getitem (PyInt n) k = Inl TypeError"
| "py_getitem (PyStr s) k = Inl TypeError"
| "py_getitem (PyRole r) k = Inl TypeError"

text \<open>\<^verbatim>\<open>kwargs.get(key, default)\<close> on the keyword dictionary of a call.\<close>

type_synonym kwargs = "(string \<times> pyval) list"

definition kwargs_get :: "kwargs \<Rightarrow> string \<Rightarrow> pyval \<Rightarrow> pyval" where
  "kwargs_get kw k dflt = (case map_of kw k of None \<Rightarrow> dflt | Some v \<Rightarrow> v)"

text \<open>
  The lines the decorator module prints. The texts are Chinese in the source; a line is kept
  as its template and the values formatted into it. The time printed by the second line of
  the synchronisation is \<^verbatim>\<open>datetime.datetime.now()\<close> and is not represented.
\<close>

datatype line =
    PermissionDenied pyval string
  | ErpSync pyval
  | ErpSyncTime
  | MesReport pyval pyval

type_synonym stdout = "line list"

text \<open>A callable: its \<^verbatim>\<open>__name__\<close> and what a call \<^verbatim>\<open>f(*args, **kwargs)\<close> does.\<close>

record pyfunc =
  fn_name :: string
  fn_call :: "pyval list \<Rightarrow> kwargs \<Rightarrow> stdout \<Rightarrow> (exn + pyval) \<times> stdout"

text \<open>
  Binding the arguments of a call to the parameters of a \<^verbatim>\<open>def\<close> without defaults: the
  positional arguments fill the first parameters, every keyword must name one of the
  remaining parameters, and every remaining parameter must be given; anything else is a
  \<^verbatim>\<open>TypeError\<close>. The result lists the values in parameter order.
\<close>

fun bind_keywords :: "string list \<Rightarrow> kwargs \<Rightarrow> exn + pyval list" where
  "bind_keywords [] kw = Inr []"
| "bind_keywords (p # ps) kw =
     (case map_of kw p of
        None \<Rightarrow> Inl TypeError
      | Some v \<Rightarrow> (case bind_keywords ps kw of Inl e \<Rightarrow> Inl e | Inr vs \<Rightarrow> Inr (v # vs)))"

definition bind_params :: "string list \<Rightarrow> pyval list \<Rightarrow> kwargs \<Rightarrow> exn + pyval list" where
  "bind_params ps args kw =
     (if length ps < length args then Inl TypeError
      else if \<not> list_all (\<lambda>k. k \<in> set (drop (length args) ps)) (map fst kw)
        then Inl TypeError
      else (case bind_keywords (drop (length args) ps) kw of
              Inl e \<Rightarrow> Inl e
            | Inr vs \<Rightarrow> Inr (args @ vs)))"

section \<open>The decorator module\<close>

text \<open>
  \<^verbatim>\<open>require_permission(role)(func)\<close>: the wrapper reads \<^verbatim>\<open>kwargs.get("user_role", "Guest")\<close>,
  prints the refusal and returns \<^verbatim>\<open>None\<close> when \<^verbatim>\<open>user_role <= role\<close>, and calls \<open>func\<close> with
  the same arguments otherwise. \<^verbatim>\<open>functools.wraps\<close> keeps the name of \<open>func\<close>.
\<close>

definition require_permission :: "UserRole \<Rightarrow> pyfunc \<Rightarrow> pyfunc" where
  "require_permission role func =
     \<lparr> fn_name = fn_name func,
       fn_call = (\<lambda>args kw out.
         (let user_role = kwargs_get kw ''user_role'' (PyStr ''Guest'') in
          case py_le_role user_role role of
            Inl e \<Rightarrow> (Inl e, out)
          | Inr True \<Rightarrow> (Inr PyNone, out @ [PermissionDenied user_role (fn_name func)])
          | Inr False \<Rightarrow> fn_call func args kw out)) \<rparr>"

text \<open>
  \<^verbatim>\<open>sync_to_erp(func)\<close>: the wrapper calls \<open>func\<close>, and when the result is true prints the
  synchronisation line, which formats \<^verbatim>\<open>result['order_id']\<close>, and the time line; it returns
  the result.
\<close>

definition sync_to_erp :: "pyfunc \<Rightarrow> pyfunc" where
  "sync_to_erp func =
     \<lparr> fn_name = fn_name func,
       fn_call = (\<lambda>args kw out.
         (case fn_call func args kw out of
            (Inl e, out') \<Rightarrow> (Inl e, out')
          | (Inr result, out') \<Rightarrow>
              (if truthy result then
                 (case py_getitem result ''order_id'' of
                    Inl e \<Rightarrow> (Inl e, out')
                  | Inr oid \<Rightarrow> (Inr result, out' @ [ErpSync oid, ErpSyncTime]))
               else (Inr result, out')))) \<rparr>"

text \<open>The undecorated \<^verbatim>\<open>def report_production(order_id, quantity, user_role)\<close>.\<close>

definition report_production_def_body :: pyfunc where
  "report_production_def_body =
     \<lparr> fn_name = ''report_production'',
       fn_call = (\<lambda>args kw out.
         (case bind_params [''order_id'', ''quantity'', ''user_role''] args kw of
            Inr [order_id, quantity, user_role] \<Rightarrow>
              (Inr (PyDict [(''order_id'', order_id), (''status'', PyStr ''completed'')]),
               out @ [MesReport order_id quantity])
          | _ \<Rightarrow> (Inl TypeError, out))) \<rparr>"

text \<open>
  The name \<^verbatim>\<open>report_production\<close> of the module:
  \<^verbatim>\<open>@require_permission(role=UserRole.OPERATOR) @sync_to_erp def report_production\<close>.
\<close>

definition report_production :: pyfunc where
  "report_production = require_permission OPERATOR (sync_to_erp report_production_def_body)"

text \<open>The call \<^verbatim>\<open>report_production(order_id, quantity, user_role=r)\<close> made by \<^verbatim>\<open>main\<close>.\<close>

definition report_call :: "pyval \<Rightarrow> pyval \<Rightarrow> pyval \<Rightarrow> stdout \<Rightarrow> (exn + pyval) \<times> stdout" where
  "report_call order_id quantity r out =
     fn_call report_production [order_id, quantity] [(''user_role'', r)] out"

text \<open>
  A stand-in for a wrapped function that takes any arguments, prints nothing and returns a
  fixed value, as in \<^verbatim>\<open>def f(*args, **kwargs): return v\<close>.
\<close>

definition returning :: "string \<Rightarrow> pyval \<Rightarrow> pyfunc" where
  "returning name v = \<lparr> fn_name = name, fn_call = (\<lambda>args kw out. (Inr v, out)) \<rparr>"

text \<open>Counting, in the lines a call has printed, the reports of the core and the synchronisations.\<close>

fun is_MesReport :: "line \<Rightarrow> bool" where
  "is_MesReport (MesReport order_id quantity) = True"
| "is_MesReport (PermissionDenied r n) = False"
| "is_MesReport (ErpSync order_id) = False"
| "is_MesReport ErpSyncTime = False"

fun is_ErpSync :: "line \<Rightarrow> bool" where
  "is_ErpSync (ErpSync order_id) = True"
| "is_ErpSync (PermissionDenied r n) = False"
| "is_ErpSync ErpSyncTime = False"
| "is_ErpSync (MesReport order_id quantity) = False"

definition printed :: "stdout \<Rightarrow> stdout \<Rightarrow> stdout" where
  "printed out out' = drop (length out) out'"

definition terminal_runs :: "stdout \<Rightarrow> nat" where
  "terminal_runs ls = length (filter is_MesReport ls)"

definition sync_calls :: "stdout \<Rightarrow> nat" where
  "sync_calls ls = length (filter is_ErpSync ls)"

section \<open>The observer module\<close>

text \<open>\<^verbatim>\<open>class Status(Enum)\<close> and the \<^verbatim>\<open>value\<close> of each member.\<close>

datatype Status = IDLE | RUNNING | FAULT

fun status_value :: "Status \<Rightarrow> string" where
  "status_value IDLE = ''idle''"
| "status_value RUNNING = ''running''"
| "status_value FAULT = ''fault''"

text \<open>
  Objects are references, told apart by their identity. An instance of a subclass of
  \<^verbatim>\<open>Observer\<close> is \<open>ObserverObj\<close> with its identity: the observer classes define no \<^verbatim>\<open>__eq__\<close>, so
  \<^verbatim>\<open>in\<close> and \<^verbatim>\<open>remove\<close> compare identities. \<open>MachineObj\<close> is the machine itself, the one
  \<^verbatim>\<open>Observable\<close> of this world (the dataclass \<^verbatim>\<open>Machine\<close> does define \<^verbatim>\<open>__eq__\<close>, comparing the
  fields of two machines; with one machine that is identity, and against an object of
  another class Python falls back to identity). An object of any other class is \<open>OtherObj\<close>
  with its identity.
\<close>

type_synonym oid = nat

datatype pyobject = ObserverObj oid | MachineObj | OtherObj oid

fun isinstance_Observer :: "pyobject \<Rightarrow> bool" where
  "isinstance_Observer (ObserverObj obj) = True"
| "isinstance_Observer MachineObj = False"
| "isinstance_Observer (OtherObj obj) = False"

fun isinstance_Observable :: "pyobject \<Rightarrow> bool" where
  "isinstance_Observable MachineObj = True"
| "isinstance_Observable (ObserverObj obj) = False"
| "isinstance_Observable (OtherObj obj) = False"

text \<open>The dataclass \<^verbatim>\<open>Machine(Observable)\<close>: fields \<^verbatim>\<open>_observers\<close>, \<^verbatim>\<open>machine_id\<close>, \<^verbatim>\<open>_status\<close>.\<close>

record Machine =
  observers :: "pyobject list"
  machine_id :: string
  status :: Status

definition Machine_init :: "string \<Rightarrow> Machine" where
  "Machine_init mid = \<lparr> observers = [], machine_id = mid, status = IDLE \<rparr>"

text \<open>The lines the observer module prints, as template and formatted values.\<close>

datatype notice =
    StatusChanged string string
  | MaintenanceAlert string
  | DashboardUpdate string string

text \<open>What a method can read and change: the machine and the standard output.\<close>

record world =
  machine :: Machine
  console :: "notice list"

definition register_observer :: "pyobject \<Rightarrow> Machine \<Rightarrow> bool \<times> Machine" where
  "register_observer observer m =
     (if \<not> isinstance_Observer observer then (False, m)
      else (True, m\<lparr>observers := observers m @ [observer]\<rparr>))"

definition remove_observer :: "pyobject \<Rightarrow> Machine \<Rightarrow> bool \<times> Machine" where
  "remove_observer observer m =
     (if observer \<notin> set (observers m) then (False, m)
      else (True, m\<lparr>observers := remove1 observer (observers m)\<rparr>))"

text \<open>\<^verbatim>\<open>Observer.subscribe\<close> and \<^verbatim>\<open>Observer.unsubscribe\<close> of the observer \<open>self\<close>.\<close>

definition subscribe :: "oid \<Rightarrow> pyobject \<Rightarrow> world \<Rightarrow> bool \<times> world" where
  "subscribe self observable w =
     (if \<not> isinstance_Observable observable then (False, w)
      else (True, w\<lparr>machine := snd (register_observer (ObserverObj self) (machine w))\<rparr>))"

definition unsubscribe :: "oid \<Rightarrow> pyobject \<Rightarrow> world \<Rightarrow> bool \<times> world" where
  "unsubscribe self observable w =
     (if \<not> isinstance_Observable observable then (False, w)
      else (True, w\<lparr>machine := snd (remove_observer (ObserverObj self) (machine w))\<rparr>))"

text \<open>The \<^verbatim>\<open>update\<close> methods: the abstract one raises, the two classes of the module print.\<close>

type_synonym update_method = "string \<Rightarrow> Status \<Rightarrow> world \<Rightarrow> (exn + unit) \<times> world"

definition Observer_update :: "oid \<Rightarrow> update_method" where
  "Observer_update self mid st w = (Inl NotImplementedError, w)"

definition MaintenanceEngineer_update :: "oid \<Rightarrow> update_method" where
  "MaintenanceEngineer_update self mid st w =
     (if st = FAULT then (Inr (), w\<lparr>console := console w @ [MaintenanceAlert mid]\<rparr>)
      else (Inr (), w))"

definition ProductionDashboard_update :: "oid \<Rightarrow> update_method" where
  "ProductionDashboard_update self mid st w =
     (Inr (), w\<lparr>console := console w @ [DashboardUpdate mid (status_value st)]\<rparr>)"

text \<open>
  Which \<^verbatim>\<open>update\<close> each observer object has is fixed by its class; a broadcast takes it as
  the table \<open>upd\<close>. A delivery is one call \<^verbatim>\<open>observer.update(self.machine_id, self._status)\<close>,
  with the arguments as they are read when the call is made.
\<close>

type_synonym dispatch = "oid \<Rightarrow> update_method"

type_synonym delivery = "pyobject \<times> string \<times> Status"

text \<open>
  \<^verbatim>\<open>for observer in self._observers: observer.update(self.machine_id, self._status)\<close>.
  The list iterator keeps an index into the list itself and stops when the index reaches
  the current length, so a change of the list made by an \<^verbatim>\<open>update\<close> is seen by the loop, which
  may then run forever: \<open>None\<close> is the loop that does not return. An exception raised by an
  \<^verbatim>\<open>update\<close> leaves the loop; an element without \<^verbatim>\<open>update\<close> is an \<^verbatim>\<open>AttributeError\<close>. The
  deliveries made are collected in \<open>ds\<close>.
\<close>

partial_function (option) notify_from ::
  "dispatch \<Rightarrow> nat \<Rightarrow> world \<Rightarrow> delivery list \<Rightarrow> ((exn + unit) \<times> world \<times> delivery list) option"
where
  "notify_from upd i w ds =
     (if i < length (observers (machine w)) then
        (case observers (machine w) ! i of
           ObserverObj obj \<Rightarrow>
             (case upd obj (machine_id (machine w)) (status (machine w)) w of
                (Inl e, w') \<Rightarrow>
                  Some (Inl e, w',
                        ds @ [(ObserverObj obj, machine_id (machine w), status (machine w))])
              | (Inr u, w') \<Rightarrow>
                  notify_from upd (Suc i) w'
                    (ds @ [(ObserverObj obj, machine_id (machine w), status (machine w))]))
         | MachineObj \<Rightarrow> Some (Inl AttributeError, w, ds)
         | OtherObj obj \<Rightarrow> Some (Inl AttributeError, w, ds))
      else Some (Inr (), w, ds))"

declare notify_from.simps [code]

definition notify_observers ::
  "dispatch \<Rightarrow> world \<Rightarrow> delivery list \<Rightarrow> ((exn + unit) \<times> world \<times> delivery list) option"
where
  "notify_observers upd w ds = notify_from upd 0 w ds"

text \<open>
  \<^verbatim>\<open>Machine.set_status\<close>: print the message and assign \<^verbatim>\<open>_status\<close> (the first two statements,
  \<open>assign_status\<close>), then notify.
\<close>

definition assign_status :: "Status \<Rightarrow> world \<Rightarrow> world" where
  "assign_status st w =
     w\<lparr>console := console w @ [StatusChanged (machine_id (machine w)) (status_value st)],
       machine := (machine w)\<lparr>status := st\<rparr>\<rparr>"

definition set_status ::
  "dispatch \<Rightarrow> Status \<Rightarrow> world \<Rightarrow> delivery list \<Rightarrow> ((exn + unit) \<times> world \<times> delivery list) option"
where
  "set_status upd st w ds = notify_observers upd (assign_status st w) ds"

text \<open>
  What a complete broadcast amounts to: \<open>updates_applied\<close> is the world after
  \<^verbatim>\<open>update(mid, st)\<close> has been called on each observer of a list, one after the other in the
  order of the list, each call starting from the world the one before has left;
  \<open>broadcast_result\<close> is that for the registered observers, starting from the world in which
  the status has been assigned, and \<open>deliveries_of\<close> lists the calls.
\<close>

fun update_applied :: "dispatch \<Rightarrow> string \<Rightarrow> Status \<Rightarrow> pyobject \<Rightarrow> world \<Rightarrow> world" where
  "update_applied upd mid st (ObserverObj obj) w = snd (upd obj mid st w)"
| "update_applied upd mid st MachineObj w = w"
| "update_applied upd mid st (OtherObj obj) w = w"

fun updates_applied :: "dispatch \<Rightarrow> string \<Rightarrow> Status \<Rightarrow> pyobject list \<Rightarrow> world \<Rightarrow> world" where
  "updates_applied upd mid st [] w = w"
| "updates_applied upd mid st (x # xs) w = updates_applied upd mid st xs (update_applied upd mid st x w)"

definition broadcast_result :: "dispatch \<Rightarrow> Status \<Rightarrow> world \<Rightarrow> world" where
  "broadcast_result upd st w =
     updates_applied upd (machine_id (machine w)) st (observers (machine w)) (assign_status st w)"

definition deliveries_of :: "Status \<Rightarrow> world \<Rightarrow> delivery list" where
  "deliveries_of st w = map (\<lambda>x. (x, machine_id (machine w), st)) (observers (machine w))"

text \<open>A sequence of \<^verbatim>\<open>register_observer\<close> and \<^verbatim>\<open>remove_observer\<close> calls on a machine.\<close>

datatype registry_op = Register pyobject | Unregister pyobject

fun apply_ops :: "registry_op list \<Rightarrow> Machine \<Rightarrow> Machine" where
  "apply_ops [] m = m"
| "apply_ops (Register x # ops) m = apply_ops ops (snd (register_observer x m))"
| "apply_ops (Unregister x # ops) m = apply_ops ops (snd (remove_observer x m))"

text \<open>
  An observer is well behaved when its \<^verbatim>\<open>update\<close> always returns and leaves the machine as it is,
  as those of \<^verbatim>\<open>MaintenanceEngineer\<close> and \<^verbatim>\<open>ProductionDashboard\<close> do.
\<close>

definition well_behaved :: "dispatch \<Rightarrow> pyobject \<Rightarrow> bool" where
  "well_behaved upd x \<longleftrightarrow>
     (case x of
        ObserverObj obj \<Rightarrow>
          (\<forall>mid st w. fst (upd obj mid st w) = Inr () \<and> machine (snd (upd obj mid st w)) = machine w)
      | MachineObj \<Rightarrow> False
      | OtherObj obj \<Rightarrow> False)"

text \<open>
  The objects of \<^verbatim>\<open>main\<close>: the engineer is object 0, the dashboard object 1, the machine is
  \<^verbatim>\<open>Machine(machine_id="CNC-001")\<close> with both registered.
\<close>

definition main_dispatch :: dispatch where
  "main_dispatch obj = (if obj = 0 then MaintenanceEngineer_update obj else ProductionDashboard_update obj)"

definition main_world :: world where
  "main_world =
     \<lparr> machine = apply_ops [Register (ObserverObj 0), Register (ObserverObj 1)] (Machine_init ''CNC-001''),
       console = [] \<rparr>"

text \<open>
  Three subclasses a client can write against the module. The first calls the inherited
  abstract method: \<^verbatim>\<open>def update(self, machine_id, status): super().update(machine_id, status)\<close>.
  The second leaves after its first notice:
  \<^verbatim>\<open>def update(self, machine_id, status): self.unsubscribe(machine)\<close>.
  The third subscribes again at each notice:
  \<^verbatim>\<open>def update(self, machine_id, status): self.subscribe(machine)\<close>.
\<close>

definition Unimplemented_update :: "oid \<Rightarrow> update_method" where
  "Unimplemented_update self mid st w = Observer_update self mid st w"

definition Leaving_update :: "oid \<Rightarrow> update_method" where
  "Leaving_update self mid st w = (Inr (), snd (unsubscribe self MachineObj w))"

definition Joining_update :: "oid \<Rightarrow> update_method" where
  "Joining_update self mid st w = (Inr (), snd (subscribe self MachineObj w))"

definition faulty_dispatch :: dispatch where
  "faulty_dispatch obj = (if obj = 0 then Unimplemented_update obj else ProductionDashboard_update obj)"

definition leaving_dispatch :: dispatch where
  "leaving_dispatch obj = (if obj = 0 then Leaving_update obj else ProductionDashboard_update obj)"

definition delivered_to :: "((exn + unit) \<times> world \<times> delivery list) option \<Rightarrow> pyobject list" where
  "delivered_to r = (case r of None \<Rightarrow> [] | Some (res, w, ds) \<Rightarrow> map fst ds)"

text \<open>Registering the same object twice in a row, as two \<^verbatim>\<open>register_observer\<close> calls.\<close>

definition register_twice :: "pyobject \<Rightarrow> Machine \<Rightarrow> Machine" where
  "register_twice x m = snd (register_observer x (snd (register_observer x m)))"

section \<open>The decorators, call by call\<close>

lemma require_permission_call:
  "fn_call (require_permission role func) args kw out =
     (case py_le_role (kwargs_get kw ''user_role'' (PyStr ''Guest'')) role of
        Inl e \<Rightarrow> (Inl e, out)
      | Inr True \<Rightarrow>
          (Inr PyNone,
           out @ [PermissionDenied (kwargs_get kw ''user_role'' (PyStr ''Guest'')) (fn_name func)])
      | Inr False \<Rightarrow> fn_call func args kw out)"
  by (simp add: require_permission_def Let_def)

lemma sync_to_erp_name: "fn_name (sync_to_erp func) = fn_name func"
  by (simp add: sync_to_erp_def)

lemma body_name: "fn_name report_production_def_body = ''report_production''"
  by (simp add: report_production_def_body_def)

lemma body_call_main:
  "fn_call report_production_def_body [order_id, quantity] [(''user_role'', r)] out =
    (Inr (PyDict [(''order_id'', order_id), (''status'', PyStr ''completed'')]),
     out @ [MesReport order_id quantity])"
  by (simp add: report_production_def_body_def bind_params_def)

text \<open>Whatever the arguments, the core either fails to bind them or reports once.\<close>

lemma body_call_cases:
  "fn_call report_production_def_body args kw out = (Inl TypeError, out) \<or>
   (\<exists>order_id quantity.
      fn_call report_production_def_body args kw out =
        (Inr (PyDict [(''order_id'', order_id), (''status'', PyStr ''completed'')]),
         out @ [MesReport order_id quantity]))"
  by (simp add: report_production_def_body_def split: sum.splits list.splits)

lemma report_call_eq:
  "report_call order_id quantity r out =
     (case py_le_role r OPERATOR of
        Inl e \<Rightarrow> (Inl e, out)
      | Inr True \<Rightarrow> (Inr PyNone, out @ [PermissionDenied r ''report_production''])
      | Inr False \<Rightarrow>
          (Inr (PyDict [(''order_id'', order_id), (''status'', PyStr ''completed'')]),
           out @ [MesReport order_id quantity, ErpSync order_id, ErpSyncTime]))"
  by (simp add: report_call_def report_production_def require_permission_call kwargs_get_def
        sync_to_erp_def body_call_main body_name split: sum.splits bool.splits)

text \<open>The three ways a call of the decorated \<^verbatim>\<open>report_production\<close> can end.\<close>

lemma chain_cases:
  "fn_call report_production args kw out = (Inl TypeError, out) \<or>
   (py_le_role (kwargs_get kw ''user_role'' (PyStr ''Guest'')) OPERATOR = Inr True \<and>
    fn_call report_production args kw out =
      (Inr PyNone,
       out @ [PermissionDenied (kwargs_get kw ''user_role'' (PyStr ''Guest'')) ''report_production''])) \<or>
   (py_le_role (kwargs_get kw ''user_role'' (PyStr ''Guest'')) OPERATOR = Inr False \<and>
    (\<exists>order_id quantity.
      fn_call report_production args kw out =
        (Inr (PyDict [(''order_id'', order_id), (''status'', PyStr ''completed'')]),
         out @ [MesReport order_id quantity, ErpSync order_id, ErpSyncTime])))"
proof (cases "py_le_role (kwargs_get kw ''user_role'' (PyStr ''Guest'')) OPERATOR")
  case (Inl e)
  then have "e = TypeError"
    by (cases "kwargs_get kw ''user_role'' (PyStr ''Guest'')") auto
  with Inl show ?thesis
    by (simp add: report_production_def require_permission_call)
next
  case (Inr b)
  show ?thesis
  proof (cases b)
    case True
    with Inr show ?thesis
      by (simp add: report_production_def require_permission_call sync_to_erp_name body_name)
  next
    case False
    from body_call_cases [of args kw out] show ?thesis
    proof
      assume "fn_call report_production_def_body args kw out = (Inl TypeError, out)"
      with Inr False show ?thesis
        by (simp add: report_production_def require_permission_call sync_to_erp_def)
    next
      assume "\<exists>order_id quantity.
        fn_call report_production_def_body args kw out =
          (Inr (PyDict [(''order_id'', order_id), (''status'', PyStr ''completed'')]),
           out @ [MesReport order_id quantity])"
      then obtain order_id quantity where
        "fn_call report_production_def_body args kw out =
          (Inr (PyDict [(''order_id'', order_id), (''status'', PyStr ''completed'')]),
           out @ [MesReport order_id quantity])" by blast
      with Inr False show ?thesis
        by (simp add: report_production_def require_permission_call sync_to_erp_def)
    qed
  qed
qed

lemma getitem_truthy: "py_getitem result k = Inr v \<Longrightarrow> truthy result"
  by (cases result) (auto split: option.splits)

subsection \<open>Authorization\<close>

text \<open>
  Claim C1. For every caller role and every required role of the enumeration, the wrapper of
  \<^verbatim>\<open>require_permission\<close> runs the wrapped function exactly when the caller's role is strictly
  greater than the required one, and otherwise prints the refusal and returns \<^verbatim>\<open>None\<close>
  without running it: the core's report line is printed if and only if
  \<open>role_value required < role_value caller\<close>. With \<^verbatim>\<open>OPERATOR\<close> required, \<^verbatim>\<open>GUEST\<close> and
  \<^verbatim>\<open>OPERATOR\<close> are refused and \<^verbatim>\<open>ADMIN\<close> receives the completed record.
\<close>

theorem require_permission_strictly_greater:
  "(map_of kw ''user_role'' = Some (PyRole caller) \<longrightarrow>
      fn_call (require_permission required func) args kw out =
        (if role_value required < role_value caller then fn_call func args kw out
         else (Inr PyNone, out @ [PermissionDenied (PyRole caller) (fn_name func)])))
   \<and> (terminal_runs (printed out (snd (fn_call
          (require_permission required report_production_def_body)
          [order_id, quantity] [(''user_role'', PyRole caller)] out))) = 1
        \<longleftrightarrow> role_value required < role_value caller)
   \<and> report_call order_id quantity (PyRole GUEST) out =
       (Inr PyNone, out @ [PermissionDenied (PyRole GUEST) ''report_production''])
   \<and> report_call order_id quantity (PyRole OPERATOR) out =
       (Inr PyNone, out @ [PermissionDenied (PyRole OPERATOR) ''report_production''])
   \<and> report_call order_id quantity (PyRole ADMIN) out =
       (Inr (PyDict [(''order_id'', order_id), (''status'', PyStr ''completed'')]),
        out @ [MesReport order_id quantity, ErpSync order_id, ErpSyncTime])"
proof -
  have "terminal_runs (printed out (snd (fn_call
          (require_permission required report_production_def_body)
          [order_id, quantity] [(''user_role'', PyRole caller)] out))) = 1
        \<longleftrightarrow> role_value required < role_value caller"
    by (cases "role_value caller \<le> role_value required")
       (simp_all add: require_permission_call kwargs_get_def body_call_main body_name printed_def
          terminal_runs_def)
  then show ?thesis
    by (simp add: require_permission_call kwargs_get_def report_call_eq)
qed

theorem require_permission_strictly_greater_witness:
  "fn_call (require_permission OPERATOR (returning ''stub'' (PyInt 7))) []
       [(''user_role'', PyRole ADMIN)] [] = (Inr (PyInt 7), [])
   \<and> fn_call (require_permission OPERATOR (returning ''stub'' (PyInt 7))) []
       [(''user_role'', PyRole OPERATOR)] [] =
       (Inr PyNone, [PermissionDenied (PyRole OPERATOR) ''stub''])
   \<and> report_call (PyStr ''ORD-002'') (PyInt 500) (PyRole ADMIN) [] =
       (Inr (PyDict [(''order_id'', PyStr ''ORD-002''), (''status'', PyStr ''completed'')]),
        [MesReport (PyStr ''ORD-002'') (PyInt 500), ErpSync (PyStr ''ORD-002''), ErpSyncTime])"
  using require_permission_strictly_greater
          [of "[(''user_role'', PyRole ADMIN)]" ADMIN OPERATOR "returning ''stub'' (PyInt 7)" "[]" "[]"
              "PyStr ''ORD-002''" "PyInt 500"]
        require_permission_strictly_greater
          [of "[(''user_role'', PyRole OPERATOR)]" OPERATOR OPERATOR "returning ''stub'' (PyInt 7)"
              "[]" "[]" "PyStr ''ORD-002''" "PyInt 500"]
  by (simp add: returning_def)

text \<open>
  Claim C5. Every call of the decorated \<^verbatim>\<open>report_production\<close> prints the core's report line
  at most once, and only when the guard found \<^verbatim>\<open>user_role <= OPERATOR\<close> false. Called with
  \<^verbatim>\<open>GUEST\<close> the result is the refusal \<^verbatim>\<open>None\<close> with no report and no synchronisation line;
  called with \<^verbatim>\<open>ADMIN\<close> the result is the completed record with exactly one report and one
  synchronisation line.
\<close>

theorem report_production_runs_core_at_most_once:
  "terminal_runs (printed out (snd (fn_call report_production args kw out))) \<le> 1
   \<and> (terminal_runs (printed out (snd (fn_call report_production args kw out))) = 1 \<longrightarrow>
        py_le_role (kwargs_get kw ''user_role'' (PyStr ''Guest'')) OPERATOR = Inr False)
   \<and> fst (report_call order_id quantity (PyRole GUEST) out) = Inr PyNone
   \<and> terminal_runs (printed out (snd (report_call order_id quantity (PyRole GUEST) out))) = 0
   \<and> sync_calls (printed out (snd (report_call order_id quantity (PyRole GUEST) out))) = 0
   \<and> fst (report_call order_id quantity (PyRole ADMIN) out) =
        Inr (PyDict [(''order_id'', order_id), (''status'', PyStr ''completed'')])
   \<and> terminal_runs (printed out (snd (report_call order_id quantity (PyRole ADMIN) out))) = 1
   \<and> sync_calls (printed out (snd (report_call order_id quantity (PyRole ADMIN) out))) = 1"
proof -
  have a: "terminal_runs (printed out (snd (fn_call report_production args kw out))) \<le> 1"
    using chain_cases [of args kw out]
    by (auto simp: printed_def terminal_runs_def)
  have b: "terminal_runs (printed out (snd (fn_call report_production args kw out))) = 1 \<longrightarrow>
        py_le_role (kwargs_get kw ''user_role'' (PyStr ''Guest'')) OPERATOR = Inr False"
    using chain_cases [of args kw out]
    by (auto simp: printed_def terminal_runs_def)
  have c: "fst (report_call order_id quantity (PyRole GUEST) out) = Inr PyNone
   \<and> terminal_runs (printed out (snd (report_call order_id quantity (PyRole GUEST) out))) = 0
   \<and> sync_calls (printed out (snd (report_call order_id quantity (PyRole GUEST) out))) = 0"
    by (simp add: report_call_eq printed_def terminal_runs_def sync_calls_def)
  have d: "fst (report_call order_id quantity (PyRole ADMIN) out) =
        Inr (PyDict [(''order_id'', order_id), (''status'', PyStr ''completed'')])
   \<and> terminal_runs (printed out (snd (report_call order_id quantity (PyRole ADMIN) out))) = 1
   \<and> sync_calls (printed out (snd (report_call order_id quantity (PyRole ADMIN) out))) = 1"
    by (simp add: report_call_eq printed_def terminal_runs_def sync_calls_def)
  from a b c d show ?thesis by blast
qed

theorem report_production_runs_core_at_most_once_witness:
  "terminal_runs (printed [] (snd (fn_call report_production [PyStr ''ORD-002'', PyInt 500]
       [(''user_role'', PyRole ADMIN)] []))) = 1
   \<and> py_le_role (kwargs_get [(''user_role'', PyRole ADMIN)] ''user_role'' (PyStr ''Guest'')) OPERATOR =
       Inr False
   \<and> fst (report_call (PyStr ''ORD-001'') (PyInt 100) (PyRole GUEST) []) = Inr PyNone
   \<and> terminal_runs (printed [] (snd (report_call (PyStr ''ORD-001'') (PyInt 100) (PyRole GUEST) []))) = 0"
proof -
  have run: "terminal_runs (printed [] (snd (fn_call report_production [PyStr ''ORD-002'', PyInt 500]
       [(''user_role'', PyRole ADMIN)] []))) = 1"
    using report_call_eq [of "PyStr ''ORD-002''" "PyInt 500" "PyRole ADMIN" "[]"]
    by (simp add: report_call_def printed_def terminal_runs_def)
  show ?thesis
    using run
      report_production_runs_core_at_most_once
        [of "[]" "[PyStr ''ORD-002'', PyInt 500]" "[(''user_role'', PyRole ADMIN)]"
            "PyStr ''ORD-001''" "PyInt 100"]
    by simp
qed

subsection \<open>Synchronisation after success\<close>

text \<open>
  Claim C6, as the code has it. The wrapper of \<^verbatim>\<open>sync_to_erp\<close> always calls the wrapped
  function. When that returns a result that is not true (\<^verbatim>\<open>None\<close>, an empty dictionary), the
  result is returned unchanged and no synchronisation line is printed; when it returns a
  result with an \<^verbatim>\<open>order_id\<close> item (which is then true), the synchronisation is printed
  exactly once and the result is returned unchanged.
\<close>

theorem sync_to_erp_returns_result:
  assumes "fn_call func args kw out = (Inr result, out')"
  shows "(\<not> truthy result \<longrightarrow>
            fn_call (sync_to_erp func) args kw out = (Inr result, out')
          \<and> sync_calls (printed out' (snd (fn_call (sync_to_erp func) args kw out))) = 0)
       \<and> (py_getitem result ''order_id'' = Inr oid \<longrightarrow>
            truthy result
          \<and> fn_call (sync_to_erp func) args kw out = (Inr result, out' @ [ErpSync oid, ErpSyncTime])
          \<and> sync_calls (printed out' (snd (fn_call (sync_to_erp func) args kw out))) = 1)"
  using assms getitem_truthy [of result "''order_id''" oid]
  by (simp add: sync_to_erp_def printed_def sync_calls_def)

theorem sync_to_erp_returns_result_witness:
  "fn_call (sync_to_erp (returning ''stub'' PyNone)) [] [] [] = (Inr PyNone, [])
   \<and> fn_call (sync_to_erp (returning ''stub'' (PyDict []))) [] [] [] = (Inr (PyDict []), [])
   \<and> fn_call (sync_to_erp (returning ''stub''
         (PyDict [(''order_id'', PyStr ''ORD-002''), (''status'', PyStr ''completed'')]))) [] [] [] =
       (Inr (PyDict [(''order_id'', PyStr ''ORD-002''), (''status'', PyStr ''completed'')]),
        [ErpSync (PyStr ''ORD-002''), ErpSyncTime])"
proof -
  have n: "fn_call (returning ''stub'' PyNone) [] [] [] = (Inr PyNone, [])"
    by (simp add: returning_def)
  have e: "fn_call (returning ''stub'' (PyDict [])) [] [] [] = (Inr (PyDict []), [])"
    by (simp add: returning_def)
  have d: "fn_call (returning ''stub''
         (PyDict [(''order_id'', PyStr ''ORD-002''), (''status'', PyStr ''completed'')])) [] [] [] =
       (Inr (PyDict [(''order_id'', PyStr ''ORD-002''), (''status'', PyStr ''completed'')]), [])"
    by (simp add: returning_def)
  show ?thesis
    using sync_to_erp_returns_result [OF n, of PyNone]
      sync_to_erp_returns_result [OF e, of PyNone]
      sync_to_erp_returns_result [OF d, of "PyStr ''ORD-002''"]
    by simp
qed

text \<open>
  A wrapped function that returns the non-empty record \<^verbatim>\<open>{"status": "completed"}\<close>: the
  synchronisation line formats \<^verbatim>\<open>result['order_id']\<close>, so the wrapper raises \<^verbatim>\<open>KeyError\<close>;
  nothing is synchronised and the result is not returned.
\<close>

theorem sync_to_erp_record_without_order_id:
  "fn_call (returning ''stub'' (PyDict [(''status'', PyStr ''completed'')])) [] [] [] =
     (Inr (PyDict [(''status'', PyStr ''completed'')]), [])
   \<and> truthy (PyDict [(''status'', PyStr ''completed'')])
   \<and> fn_call (sync_to_erp (returning ''stub'' (PyDict [(''status'', PyStr ''completed'')]))) [] [] [] =
     (Inl KeyError, [])"
  by (simp add: sync_to_erp_def returning_def)

subsection \<open>Refusal\<close>

text \<open>
  Claim C8, as the code has it. When the guard finds \<^verbatim>\<open>user_role <= role\<close> true, the wrapper
  returns \<^verbatim>\<open>None\<close>, a value and not an exception, after printing one line with the reason
  (the role and the name of the function); the wrapped function is not called, whatever it
  is, so no report and no synchronisation line is printed.
\<close>

theorem require_permission_refusal:
  assumes "py_le_role (kwargs_get kw ''user_role'' (PyStr ''Guest'')) role = Inr True"
  shows "fn_call (require_permission role func) args kw out =
           (Inr PyNone,
            out @ [PermissionDenied (kwargs_get kw ''user_role'' (PyStr ''Guest'')) (fn_name func)])
       \<and> fn_call (require_permission role (func\<lparr>fn_call := other\<rparr>)) args kw out =
           fn_call (require_permission role func) args kw out
       \<and> terminal_runs (printed out (snd (fn_call (require_permission role func) args kw out))) = 0
       \<and> sync_calls (printed out (snd (fn_call (require_permission role func) args kw out))) = 0"
  using assms
  by (simp add: require_permission_call printed_def terminal_runs_def sync_calls_def)

theorem require_permission_refusal_witness:
  "fn_call report_production [PyStr ''ORD-001'', PyInt 100] [(''user_role'', PyRole GUEST)] [] =
     (Inr PyNone, [PermissionDenied (PyRole GUEST) ''report_production''])"
proof -
  have le: "py_le_role (kwargs_get [(''user_role'', PyRole GUEST)] ''user_role'' (PyStr ''Guest''))
              OPERATOR = Inr True"
    by (simp add: kwargs_get_def)
  show ?thesis
    using require_permission_refusal
            [OF le, of "sync_to_erp report_production_def_body" "[PyStr ''ORD-001'', PyInt 100]" "[]"]
    by (simp add: report_production_def kwargs_get_def sync_to_erp_name body_name)
qed

text \<open>
  The value returned by a refusal is \<^verbatim>\<open>None\<close> whatever the reason printed, and is the value
  an admitted call returns when the wrapped function returns \<^verbatim>\<open>None\<close>: the reason is on the
  standard output, not in the value.
\<close>

theorem refusal_value_carries_no_reason:
  "fst (report_call (PyStr ''ORD-001'') (PyInt 100) (PyRole GUEST) []) = Inr PyNone
   \<and> fst (report_call (PyStr ''ORD-001'') (PyInt 100) (PyRole OPERATOR) []) = Inr PyNone
   \<and> snd (report_call (PyStr ''ORD-001'') (PyInt 100) (PyRole GUEST) []) \<noteq>
     snd (report_call (PyStr ''ORD-001'') (PyInt 100) (PyRole OPERATOR) [])
   \<and> fst (fn_call (require_permission OPERATOR (returning ''stub'' PyNone)) []
            [(''user_role'', PyRole ADMIN)] []) = Inr PyNone"
  by (simp add: report_call_eq require_permission_call kwargs_get_def returning_def)

subsection \<open>A call without the keyword\<close>

text \<open>
  Claim C10. A call without a \<^verbatim>\<open>user_role\<close> keyword makes the guard compare the default
  string \<^verbatim>\<open>"Guest"\<close> with the enumeration: the call raises \<^verbatim>\<open>TypeError\<close>, prints nothing and
  does not run the wrapped function. The decorated \<^verbatim>\<open>report_production\<close> returns \<^verbatim>\<open>None\<close> only
  when a \<^verbatim>\<open>user_role\<close> keyword was given whose value compares with the enumeration and is
  not greater than \<^verbatim>\<open>OPERATOR\<close>.
\<close>

theorem missing_user_role_raises_TypeError:
  "(map_of kw ''user_role'' = None \<longrightarrow>
      fn_call (require_permission role func) args kw out = (Inl TypeError, out))
   \<and> (fst (fn_call report_production args kw out) = Inr PyNone \<longrightarrow>
        (\<exists>v. map_of kw ''user_role'' = Some v \<and> py_le_role v OPERATOR = Inr True))"
proof -
  have a: "map_of kw ''user_role'' = None \<longrightarrow>
      fn_call (require_permission role func) args kw out = (Inl TypeError, out)"
    by (simp add: require_permission_call kwargs_get_def)
  have b: "fst (fn_call report_production args kw out) = Inr PyNone \<longrightarrow>
        (\<exists>v. map_of kw ''user_role'' = Some v \<and> py_le_role v OPERATOR = Inr True)"
    using chain_cases [of args kw out]
    by (cases "map_of kw ''user_role''") (auto simp: kwargs_get_def)
  from a b show ?thesis by blast
qed

theorem missing_user_role_raises_TypeError_witness:
  "fn_call report_production [PyStr ''ORD-001'', PyInt 100] [] [] = (Inl TypeError, [])
   \<and> fn_call report_production [PyStr ''ORD-001'', PyInt 100, PyRole ADMIN] [] [] = (Inl TypeError, [])
   \<and> fst (fn_call report_production [PyStr ''ORD-001'', PyInt 100] [(''user_role'', PyInt 2)] []) =
       Inr PyNone
   \<and> (\<exists>v. map_of [(''user_role'', PyInt 2)] ''user_role'' = Some v \<and> py_le_role v OPERATOR = Inr True)"
proof -
  have none: "fst (fn_call report_production [PyStr ''ORD-001'', PyInt 100]
                     [(''user_role'', PyInt 2)] []) = Inr PyNone"
    using report_call_eq [of "PyStr ''ORD-001''" "PyInt 100" "PyInt 2" "[]"]
    by (simp add: report_call_def)
  show ?thesis
    using none
      missing_user_role_raises_TypeError
        [of "[]" OPERATOR "sync_to_erp report_production_def_body" "[PyStr ''ORD-001'', PyInt 100]" "[]"]
      missing_user_role_raises_TypeError
        [of "[]" OPERATOR "sync_to_erp report_production_def_body"
            "[PyStr ''ORD-001'', PyInt 100, PyRole ADMIN]" "[]"]
      missing_user_role_raises_TypeError
        [of "[(''user_role'', PyInt 2)]" OPERATOR "sync_to_erp report_production_def_body"
            "[PyStr ''ORD-001'', PyInt 100]" "[]"]
    by (simp add: report_production_def)
qed

section \<open>The broadcast\<close>

lemma well_behaved_ObserverObj:
  assumes "well_behaved upd x"
  shows "\<exists>obj. x = ObserverObj obj
           \<and> (\<forall>mid st w. fst (upd obj mid st w) = Inr ())
           \<and> (\<forall>mid st w. machine (snd (upd obj mid st w)) = machine w)"
  using assms by (cases x) (auto simp: well_behaved_def)

lemma updates_applied_append:
  "updates_applied upd mid st (xs @ ys) w =
     updates_applied upd mid st ys (updates_applied upd mid st xs w)"
  by (induction xs arbitrary: w) simp_all

lemma update_applied_machine:
  "well_behaved upd x \<Longrightarrow> machine (update_applied upd mid st x w) = machine w"
  using well_behaved_ObserverObj [of upd x] by auto

lemma updates_applied_machine:
  "\<forall>x \<in> set xs. well_behaved upd x \<Longrightarrow> machine (updates_applied upd mid st xs w) = machine w"
  by (induction xs arbitrary: w) (simp_all add: update_applied_machine)

lemma assign_status_machine: "machine (assign_status st w) = (machine w)\<lparr>status := st\<rparr>"
  by (simp add: assign_status_def)

text \<open>
  Over well-behaved observers the loop returns, having called \<^verbatim>\<open>update\<close> on each element from
  index \<open>i\<close> on, in the order of the list, with the identifier and status of the machine.
\<close>

lemma notify_from_well_behaved:
  assumes "\<forall>x \<in> set (observers (machine w)). well_behaved upd x"
  shows "notify_from upd i w ds =
           Some (Inr (),
                 updates_applied upd (machine_id (machine w)) (status (machine w))
                   (drop i (observers (machine w))) w,
                 ds @ map (\<lambda>x. (x, machine_id (machine w), status (machine w)))
                        (drop i (observers (machine w))))"
  using assms
proof (induction "length (observers (machine w)) - i" arbitrary: i w ds)
  case 0
  then have "\<not> i < length (observers (machine w))" by simp
  then show ?case
    by (subst notify_from.simps) simp
next
  case (Suc n)
  then have lt: "i < length (observers (machine w))" by simp
  then have "well_behaved upd (observers (machine w) ! i)"
    using Suc.prems by simp
  then obtain obj where x: "observers (machine w) ! i = ObserverObj obj"
    and ok: "\<And>mid st w. fst (upd obj mid st w) = Inr ()"
    and same: "\<And>mid st w. machine (snd (upd obj mid st w)) = machine w"
    using well_behaved_ObserverObj [of upd "observers (machine w) ! i"] by blast
  define w1 where "w1 = snd (upd obj (machine_id (machine w)) (status (machine w)) w)"
  have step: "upd obj (machine_id (machine w)) (status (machine w)) w = (Inr (), w1)"
    using ok [of "machine_id (machine w)" "status (machine w)" w]
    by (simp add: w1_def prod_eq_iff)
  have m1: "machine w1 = machine w"
    by (simp add: w1_def same)
  have "n = length (observers (machine w1)) - Suc i"
    using Suc.hyps(2) by (simp add: m1)
  moreover have "\<forall>x \<in> set (observers (machine w1)). well_behaved upd x"
    using Suc.prems by (simp add: m1)
  ultimately have
    rec: "notify_from upd (Suc i) w1
            (ds @ [(ObserverObj obj, machine_id (machine w), status (machine w))]) =
          Some (Inr (),
                updates_applied upd (machine_id (machine w1)) (status (machine w1))
                  (drop (Suc i) (observers (machine w1))) w1,
                (ds @ [(ObserverObj obj, machine_id (machine w), status (machine w))]) @
                map (\<lambda>x. (x, machine_id (machine w1), status (machine w1)))
                  (drop (Suc i) (observers (machine w1))))"
    using Suc.hyps(1) [of w1 "Suc i"] by blast
  have d: "drop i (observers (machine w)) = ObserverObj obj # drop (Suc i) (observers (machine w))"
    using lt x by (simp add: Cons_nth_drop_Suc [symmetric])
  have "update_applied upd (machine_id (machine w)) (status (machine w)) (ObserverObj obj) w = w1"
    by (simp add: w1_def)
  then show ?case
    using lt x step rec m1 d
    by (subst notify_from.simps) simp
qed

lemma set_status_well_behaved:
  assumes "\<forall>x \<in> set (observers (machine w)). well_behaved upd x"
  shows "set_status upd st w ds = Some (Inr (), broadcast_result upd st w, ds @ deliveries_of st w)"
    and "machine (broadcast_result upd st w) = (machine w)\<lparr>status := st\<rparr>"
proof -
  have wb: "\<forall>x \<in> set (observers (machine (assign_status st w))). well_behaved upd x"
    using assms by (simp add: assign_status_machine)
  from notify_from_well_behaved [OF wb, of 0 ds]
  show "set_status upd st w ds = Some (Inr (), broadcast_result upd st w, ds @ deliveries_of st w)"
    by (simp add: set_status_def notify_observers_def broadcast_result_def deliveries_of_def
          assign_status_machine)
  show "machine (broadcast_result upd st w) = (machine w)\<lparr>status := st\<rparr>"
    using assms by (simp add: broadcast_result_def updates_applied_machine assign_status_machine)
qed

lemma main_dispatch_well_behaved: "well_behaved main_dispatch (ObserverObj obj)"
  by (simp add: well_behaved_def main_dispatch_def MaintenanceEngineer_update_def
        ProductionDashboard_update_def)

text \<open>
  The first observer whose \<^verbatim>\<open>update\<close> raises ends the loop: the observers before it have
  been called, those after it have not.
\<close>

lemma notify_from_raising:
  assumes "observers (machine w) = pre @ ObserverObj obj # post"
    and "\<forall>x \<in> set pre. well_behaved upd x"
    and "i \<le> length pre"
    and "fst (upd obj (machine_id (machine w)) (status (machine w))
               (updates_applied upd (machine_id (machine w)) (status (machine w)) (drop i pre) w)) =
         Inl e"
  shows "notify_from upd i w ds =
           Some (Inl e,
                 snd (upd obj (machine_id (machine w)) (status (machine w))
                        (updates_applied upd (machine_id (machine w)) (status (machine w))
                           (drop i pre) w)),
                 ds @ map (\<lambda>x. (x, machine_id (machine w), status (machine w)))
                        (drop i pre @ [ObserverObj obj]))"
  using assms
proof (induction "length pre - i" arbitrary: i w ds)
  case 0
  then have i: "i = length pre" by simp
  have lt: "i < length (observers (machine w))"
    using "0.prems"(1) i by simp
  have x: "observers (machine w) ! i = ObserverObj obj"
    using "0.prems"(1) i by simp
  define w1 where "w1 = snd (upd obj (machine_id (machine w)) (status (machine w)) w)"
  have step: "upd obj (machine_id (machine w)) (status (machine w)) w = (Inl e, w1)"
    using "0.prems"(4) i by (simp add: w1_def prod_eq_iff)
  have "notify_from upd i w ds =
          Some (Inl e, w1, ds @ [(ObserverObj obj, machine_id (machine w), status (machine w))])"
    using lt x step
    by (subst notify_from.simps) simp
  then show ?case
    by (simp add: w1_def i)
next
  case (Suc n)
  then have lt': "i < length pre" by simp
  then have lt: "i < length (observers (machine w))"
    using Suc.prems(1) by simp
  have nth: "observers (machine w) ! i = pre ! i"
    using Suc.prems(1) lt' by (simp add: nth_append)
  have "well_behaved upd (pre ! i)"
    using Suc.prems(2) lt' by simp
  then obtain p where x: "pre ! i = ObserverObj p"
    and ok: "\<And>mid st w. fst (upd p mid st w) = Inr ()"
    and same: "\<And>mid st w. machine (snd (upd p mid st w)) = machine w"
    using well_behaved_ObserverObj [of upd "pre ! i"] by blast
  define w1 where "w1 = snd (upd p (machine_id (machine w)) (status (machine w)) w)"
  have step: "upd p (machine_id (machine w)) (status (machine w)) w = (Inr (), w1)"
    using ok [of "machine_id (machine w)" "status (machine w)" w]
    by (simp add: w1_def prod_eq_iff)
  have m1: "machine w1 = machine w"
    by (simp add: w1_def same)
  have d: "drop i pre = ObserverObj p # drop (Suc i) pre"
    using lt' x by (simp add: Cons_nth_drop_Suc [symmetric])
  have ua: "updates_applied upd (machine_id (machine w)) (status (machine w)) (drop i pre) w =
            updates_applied upd (machine_id (machine w1)) (status (machine w1)) (drop (Suc i) pre) w1"
    by (simp add: d w1_def m1 [unfolded w1_def])
  have "n = length pre - Suc i"
    using Suc.hyps(2) by simp
  moreover have "observers (machine w1) = pre @ ObserverObj obj # post"
    using Suc.prems(1) by (simp add: m1)
  moreover have "Suc i \<le> length pre"
    using lt' by simp
  moreover have "fst (upd obj (machine_id (machine w1)) (status (machine w1))
               (updates_applied upd (machine_id (machine w1)) (status (machine w1))
                  (drop (Suc i) pre) w1)) = Inl e"
    using Suc.prems(4) by (simp add: ua m1)
  ultimately have
    rec: "notify_from upd (Suc i) w1
            (ds @ [(ObserverObj p, machine_id (machine w), status (machine w))]) =
          Some (Inl e,
                snd (upd obj (machine_id (machine w1)) (status (machine w1))
                       (updates_applied upd (machine_id (machine w1)) (status (machine w1))
                          (drop (Suc i) pre) w1)),
                (ds @ [(ObserverObj p, machine_id (machine w), status (machine w))]) @
                map (\<lambda>x. (x, machine_id (machine w1), status (machine w1)))
                  (drop (Suc i) pre @ [ObserverObj obj]))"
    using Suc.hyps(1) [of "Suc i" w1] Suc.prems(2) by blast
  show ?case
    using lt nth x step rec
    by (subst notify_from.simps) (simp add: ua m1 d)
qed

subsection \<open>An update that raises\<close>

text \<open>
  Claim C2, as the code has it. \<^verbatim>\<open>notify_observers\<close> has no handler. Let the observers
  registered before some observer be well behaved (their \<^verbatim>\<open>update\<close> returns and leaves the
  machine as it is), and let the \<^verbatim>\<open>update\<close> of that observer raise when the broadcast calls
  it, that is, in the world the earlier calls have left. Then \<^verbatim>\<open>set_status\<close> ends with that
  exception: the earlier observers have been called in registration order, the world is
  the one the raising call left, and no observer registered after it has been called.
\<close>

theorem set_status_propagates_update_error:
  assumes "observers (machine w) = pre @ ObserverObj obj # post"
    and "\<forall>x \<in> set pre. well_behaved upd x"
    and "fst (upd obj (machine_id (machine w)) st
               (updates_applied upd (machine_id (machine w)) st pre (assign_status st w))) = Inl e"
  shows "set_status upd st w ds =
           Some (Inl e,
                 snd (upd obj (machine_id (machine w)) st
                        (updates_applied upd (machine_id (machine w)) st pre (assign_status st w))),
                 ds @ map (\<lambda>x. (x, machine_id (machine w), st)) (pre @ [ObserverObj obj]))"
proof -
  have "observers (machine (assign_status st w)) = pre @ ObserverObj obj # post"
    using assms(1) by (simp add: assign_status_machine)
  from notify_from_raising [OF this assms(2), of 0 e ds] assms(3)
  show ?thesis
    by (simp add: set_status_def notify_observers_def assign_status_machine)
qed

theorem set_status_propagates_update_error_witness:
  "set_status faulty_dispatch FAULT
     \<lparr>machine = \<lparr>observers = [ObserverObj 1, ObserverObj 0, ObserverObj 2],
                  machine_id = ''CNC-001'', status = IDLE\<rparr>,
       console = []\<rparr> [] =
   Some (Inl NotImplementedError,
         \<lparr>machine = \<lparr>observers = [ObserverObj 1, ObserverObj 0, ObserverObj 2],
                      machine_id = ''CNC-001'', status = FAULT\<rparr>,
           console = [StatusChanged ''CNC-001'' ''fault'', DashboardUpdate ''CNC-001'' ''fault'']\<rparr>,
         [(ObserverObj 1, ''CNC-001'', FAULT), (ObserverObj 0, ''CNC-001'', FAULT)])"
proof -
  let ?w = "\<lparr>machine = \<lparr>observers = [ObserverObj 1, ObserverObj 0, ObserverObj 2],
                  machine_id = ''CNC-001'', status = IDLE\<rparr>,
       console = []\<rparr>"
  have obs: "observers (machine ?w) = [ObserverObj 1] @ ObserverObj 0 # [ObserverObj 2]"
    by simp
  have pre: "\<forall>x \<in> set [ObserverObj 1]. well_behaved faulty_dispatch x"
    by (simp add: well_behaved_def faulty_dispatch_def ProductionDashboard_update_def)
  have raises: "fst (faulty_dispatch 0 (machine_id (machine ?w)) FAULT
               (updates_applied faulty_dispatch (machine_id (machine ?w)) FAULT [ObserverObj 1]
                  (assign_status FAULT ?w))) = Inl NotImplementedError"
    by (simp add: faulty_dispatch_def Unimplemented_update_def Observer_update_def)
  have left: "snd (faulty_dispatch 0 (machine_id (machine ?w)) FAULT
               (updates_applied faulty_dispatch (machine_id (machine ?w)) FAULT [ObserverObj 1]
                  (assign_status FAULT ?w))) =
      \<lparr>machine = \<lparr>observers = [ObserverObj 1, ObserverObj 0, ObserverObj 2],
                   machine_id = ''CNC-001'', status = FAULT\<rparr>,
        console = [StatusChanged ''CNC-001'' ''fault'', DashboardUpdate ''CNC-001'' ''fault'']\<rparr>"
    by (simp add: faulty_dispatch_def Unimplemented_update_def Observer_update_def
          ProductionDashboard_update_def assign_status_def)
  show ?thesis
    using set_status_propagates_update_error [OF obs pre raises, of "[]"]
    unfolding left by simp
qed

text \<open>
  The engineer's place is taken by an observer whose \<^verbatim>\<open>update\<close> raises: \<^verbatim>\<open>set_status\<close> ends
  with the exception and the dashboard, registered after it, is not notified.
\<close>

theorem later_subscriber_not_notified:
  "set_status faulty_dispatch RUNNING main_world [] =
     Some (Inl NotImplementedError,
           \<lparr>machine = \<lparr>observers = [ObserverObj 0, ObserverObj 1], machine_id = ''CNC-001'',
                        status = RUNNING\<rparr>,
             console = [StatusChanged ''CNC-001'' ''running'']\<rparr>,
           [(ObserverObj 0, ''CNC-001'', RUNNING)])
   \<and> ObserverObj 1 \<in> set (observers (machine main_world))
   \<and> ObserverObj 1 \<notin> set (delivered_to (set_status faulty_dispatch RUNNING main_world []))"
  by code_simp

subsection \<open>Registration\<close>

text \<open>
  Claim C3, as the code has it. \<^verbatim>\<open>register_observer\<close> does not look for the observer in the
  list: for every instance of \<^verbatim>\<open>Observer\<close>, present or not, it returns \<^verbatim>\<open>True\<close> and appends the
  observer, which then has one entry more than before. It returns \<^verbatim>\<open>False\<close>, leaving the
  machine as it is, only for an object that is not an \<^verbatim>\<open>Observer\<close>.
\<close>

theorem register_observer_appends:
  "(isinstance_Observer x \<longrightarrow>
      fst (register_observer x m)
    \<and> observers (snd (register_observer x m)) = observers m @ [x]
    \<and> count_list (observers (snd (register_observer x m))) x = count_list (observers m) x + 1)
   \<and> (\<not> isinstance_Observer x \<longrightarrow> register_observer x m = (False, m))"
  by (simp add: register_observer_def)

theorem register_observer_appends_witness:
  "isinstance_Observer (ObserverObj 0)
   \<and> count_list (observers (snd (register_observer (ObserverObj 0)
        \<lparr>observers = [ObserverObj 0], machine_id = ''CNC-001'', status = IDLE\<rparr>))) (ObserverObj 0) = 2
   \<and> register_observer (OtherObj 5) (Machine_init ''CNC-001'') = (False, Machine_init ''CNC-001'')"
  using register_observer_appends
          [of "ObserverObj 0" "\<lparr>observers = [ObserverObj 0], machine_id = ''CNC-001'', status = IDLE\<rparr>"]
        register_observer_appends [of "OtherObj 5" "Machine_init ''CNC-001''"]
  by simp

text \<open>Registering the engineer a second time returns \<^verbatim>\<open>True\<close> and leaves two entries.\<close>

theorem register_observer_not_idempotent:
  "ObserverObj 0 \<in> set (observers (snd (register_observer (ObserverObj 0) (Machine_init ''CNC-001''))))
   \<and> fst (register_observer (ObserverObj 0)
            (snd (register_observer (ObserverObj 0) (Machine_init ''CNC-001''))))
   \<and> observers (snd (register_observer (ObserverObj 0)
            (snd (register_observer (ObserverObj 0) (Machine_init ''CNC-001''))))) =
       [ObserverObj 0, ObserverObj 0]"
  by (simp add: register_observer_def Machine_init_def)

subsection \<open>Who is notified\<close>

text \<open>
  Claim C4 asks that the observers notified by a \<^verbatim>\<open>set_status\<close> call are those registered
  when it is called, whatever an \<^verbatim>\<open>update\<close> does to the registry meanwhile. The loop walks the
  list itself, and here is a call where that fails. The engineer's place is taken by an
  observer that unsubscribes in its own \<^verbatim>\<open>update\<close>; the dashboard is registered after it.
  \<^verbatim>\<open>set_status\<close> returns normally; the dashboard is registered when the call is made and
  still registered when it returns, yet its \<^verbatim>\<open>update\<close> is never called: the only delivery is
  the first observer's and no dashboard line is printed.
\<close>

theorem unsubscribing_update_skips_next:
  "observers (machine main_world) = [ObserverObj 0, ObserverObj 1]
   \<and> set_status leaving_dispatch RUNNING main_world [] =
       Some (Inr (),
             \<lparr>machine = \<lparr>observers = [ObserverObj 1], machine_id = ''CNC-001'', status = RUNNING\<rparr>,
               console = [StatusChanged ''CNC-001'' ''running'']\<rparr>,
             [(ObserverObj 0, ''CNC-001'', RUNNING)])
   \<and> delivered_to (set_status leaving_dispatch RUNNING main_world []) = [ObserverObj 0]
   \<and> set (delivered_to (set_status leaving_dispatch RUNNING main_world [])) \<noteq>
       set (observers (machine main_world))"
  by code_simp

text \<open>
  An observer that subscribes again in its own \<^verbatim>\<open>update\<close> lengthens the list under the loop
  at every step: the broadcast never returns.
\<close>

lemma notify_from_joining_returns_not:
  assumes "notify_from upd i w ds = Some y"
  shows "\<not> (upd = Joining_update \<and> i < length (observers (machine w))
            \<and> list_all isinstance_Observer (observers (machine w)))"
proof (rule notify_from.raw_induct
    [where P = "\<lambda>upd i w ds y. \<not> (upd = Joining_update \<and> i < length (observers (machine w))
            \<and> list_all isinstance_Observer (observers (machine w)))", OF _ assms], goal_cases)
  case (1 loop upd i w ds y)
  show ?case
  proof
    assume inv: "upd = Joining_update \<and> i < length (observers (machine w))
            \<and> list_all isinstance_Observer (observers (machine w))"
    then have "isinstance_Observer (observers (machine w) ! i)"
      by (simp add: list_all_length)
    then obtain obj where x: "observers (machine w) ! i = ObserverObj obj"
      by (cases "observers (machine w) ! i") simp_all
    let ?w' = "snd (subscribe obj MachineObj w)"
    have next_call: "loop upd (Suc i) ?w'
            (ds @ [(ObserverObj obj, machine_id (machine w), status (machine w))]) = Some y"
      using "1"(2) inv x by (simp add: Joining_update_def)
    have obs: "observers (machine ?w') = observers (machine w) @ [ObserverObj obj]"
      by (simp add: subscribe_def register_observer_def)
    have "upd = Joining_update \<and> Suc i < length (observers (machine ?w'))
            \<and> list_all isinstance_Observer (observers (machine ?w'))"
      using inv by (simp add: obs)
    with "1"(1) [OF next_call] show False by blast
  qed
qed

lemma set_status_joining_never_returns:
  assumes "observers (machine w) \<noteq> []"
    and "list_all isinstance_Observer (observers (machine w))"
  shows "set_status Joining_update st w ds = None"
proof (cases "set_status Joining_update st w ds")
  case None
  then show ?thesis .
next
  case (Some y)
  then have "notify_from Joining_update 0 (assign_status st w) ds = Some y"
    by (simp add: set_status_def notify_observers_def)
  from notify_from_joining_returns_not [OF this] assms show ?thesis
    by (simp add: assign_status_def)
qed

subsection \<open>Every call broadcasts\<close>

text \<open>
  Claim C7, as the code has it. Let the registered observers be well behaved (their
  \<^verbatim>\<open>update\<close> returns and leaves the machine as it is). Then \<^verbatim>\<open>set_status\<close> first assigns the new
  status and then calls \<^verbatim>\<open>update\<close> on every registered observer, in registration order, with
  the identifier of the machine and the new status, each call working on the world the one
  before has left, the first on the world in which the status is already assigned. It does
  so whatever the previous status was: a second \<^verbatim>\<open>set_status\<close> with the same status repeats
  the whole broadcast, so that every observer has been called twice for each of its entries.
\<close>

theorem set_status_commits_then_broadcasts:
  assumes "\<forall>x \<in> set (observers (machine w)). well_behaved upd x"
  shows "status (machine (assign_status st w)) = st
       \<and> broadcast_result upd st w =
           updates_applied upd (machine_id (machine w)) st (observers (machine w)) (assign_status st w)
       \<and> set_status upd st w [] = Some (Inr (), broadcast_result upd st w, deliveries_of st w)
       \<and> machine (broadcast_result upd st w) = (machine w)\<lparr>status := st\<rparr>
       \<and> set_status upd st (broadcast_result upd st w) (deliveries_of st w) =
           Some (Inr (), broadcast_result upd st (broadcast_result upd st w),
                 deliveries_of st w @ deliveries_of st w)
       \<and> count_list (map fst (deliveries_of st w @ deliveries_of st w)) x =
           2 * count_list (observers (machine w)) x"
proof -
  let ?w1 = "broadcast_result upd st w"
  have r1: "set_status upd st w [] = Some (Inr (), ?w1, deliveries_of st w)"
    and m1: "machine ?w1 = (machine w)\<lparr>status := st\<rparr>"
    using set_status_well_behaved [OF assms] by simp_all
  have wb1: "\<forall>x \<in> set (observers (machine ?w1)). well_behaved upd x"
    using assms by (simp add: m1)
  have d1: "deliveries_of st ?w1 = deliveries_of st w"
    by (simp add: deliveries_of_def m1)
  have r2: "set_status upd st ?w1 (deliveries_of st w) =
      Some (Inr (), broadcast_result upd st ?w1, deliveries_of st w @ deliveries_of st w)"
    using set_status_well_behaved(1) [OF wb1] by (simp add: d1)
  have c: "count_list (map fst (deliveries_of st w @ deliveries_of st w)) x =
           2 * count_list (observers (machine w)) x"
    by (simp add: deliveries_of_def comp_def)
  have s: "status (machine (assign_status st w)) = st"
    by (simp add: assign_status_machine)
  from r1 m1 r2 c s show ?thesis
    by (simp add: broadcast_result_def)
qed

theorem set_status_commits_then_broadcasts_witness:
  "set_status main_dispatch RUNNING main_world [] =
     Some (Inr (),
           \<lparr>machine = \<lparr>observers = [ObserverObj 0, ObserverObj 1], machine_id = ''CNC-001'',
                        status = RUNNING\<rparr>,
             console = [StatusChanged ''CNC-001'' ''running'', DashboardUpdate ''CNC-001'' ''running'']\<rparr>,
           [(ObserverObj 0, ''CNC-001'', RUNNING), (ObserverObj 1, ''CNC-001'', RUNNING)])
   \<and> set_status main_dispatch RUNNING
       \<lparr>machine = \<lparr>observers = [ObserverObj 0, ObserverObj 1], machine_id = ''CNC-001'',
                    status = RUNNING\<rparr>,
         console = [StatusChanged ''CNC-001'' ''running'', DashboardUpdate ''CNC-001'' ''running'']\<rparr>
       [(ObserverObj 0, ''CNC-001'', RUNNING), (ObserverObj 1, ''CNC-001'', RUNNING)] =
     Some (Inr (),
           \<lparr>machine = \<lparr>observers = [ObserverObj 0, ObserverObj 1], machine_id = ''CNC-001'',
                        status = RUNNING\<rparr>,
             console = [StatusChanged ''CNC-001'' ''running'', DashboardUpdate ''CNC-001'' ''running'',
                        StatusChanged ''CNC-001'' ''running'', DashboardUpdate ''CNC-001'' ''running'']\<rparr>,
           [(ObserverObj 0, ''CNC-001'', RUNNING), (ObserverObj 1, ''CNC-001'', RUNNING),
            (ObserverObj 0, ''CNC-001'', RUNNING), (ObserverObj 1, ''CNC-001'', RUNNING)])
   \<and> count_list (map fst (deliveries_of RUNNING main_world @ deliveries_of RUNNING main_world))
        (ObserverObj 1) = 2"
proof -
  have mw: "main_world =
      \<lparr>machine = \<lparr>observers = [ObserverObj 0, ObserverObj 1], machine_id = ''CNC-001'',
                   status = IDLE\<rparr>, console = []\<rparr>"
    by (simp add: main_world_def register_observer_def Machine_init_def)
  have wb: "\<forall>x \<in> set (observers (machine main_world)). well_behaved main_dispatch x"
    by (simp add: mw main_dispatch_well_behaved)
  have b1: "broadcast_result main_dispatch RUNNING main_world =
      \<lparr>machine = \<lparr>observers = [ObserverObj 0, ObserverObj 1], machine_id = ''CNC-001'',
                   status = RUNNING\<rparr>,
        console = [StatusChanged ''CNC-001'' ''running'', DashboardUpdate ''CNC-001'' ''running'']\<rparr>"
    by (simp add: mw broadcast_result_def assign_status_def main_dispatch_def
          MaintenanceEngineer_update_def ProductionDashboard_update_def)
  have b2: "broadcast_result main_dispatch RUNNING
      \<lparr>machine = \<lparr>observers = [ObserverObj 0, ObserverObj 1], machine_id = ''CNC-001'',
                   status = RUNNING\<rparr>,
        console = [StatusChanged ''CNC-001'' ''running'', DashboardUpdate ''CNC-001'' ''running'']\<rparr> =
      \<lparr>machine = \<lparr>observers = [ObserverObj 0, ObserverObj 1], machine_id = ''CNC-001'',
                   status = RUNNING\<rparr>,
        console = [StatusChanged ''CNC-001'' ''running'', DashboardUpdate ''CNC-001'' ''running'',
                   StatusChanged ''CNC-001'' ''running'', DashboardUpdate ''CNC-001'' ''running'']\<rparr>"
    by (simp add: broadcast_result_def assign_status_def main_dispatch_def
          MaintenanceEngineer_update_def ProductionDashboard_update_def)
  have dl: "deliveries_of RUNNING main_world =
      [(ObserverObj 0, ''CNC-001'', RUNNING), (ObserverObj 1, ''CNC-001'', RUNNING)]"
    by (simp add: mw deliveries_of_def)
  note all = set_status_commits_then_broadcasts [OF wb, of RUNNING "ObserverObj 1"]
  from all have r1: "set_status main_dispatch RUNNING main_world [] =
      Some (Inr (), broadcast_result main_dispatch RUNNING main_world,
            deliveries_of RUNNING main_world)"
    by blast
  from all have r2: "set_status main_dispatch RUNNING
        (broadcast_result main_dispatch RUNNING main_world) (deliveries_of RUNNING main_world) =
      Some (Inr (),
            broadcast_result main_dispatch RUNNING (broadcast_result main_dispatch RUNNING main_world),
            deliveries_of RUNNING main_world @ deliveries_of RUNNING main_world)"
    by blast
  from all have c: "count_list
        (map fst (deliveries_of RUNNING main_world @ deliveries_of RUNNING main_world))
        (ObserverObj 1) = 2 * count_list (observers (machine main_world)) (ObserverObj 1)"
    by blast
  have two: "2 * count_list (observers (machine main_world)) (ObserverObj 1) = 2"
    by (simp add: mw)
  show ?thesis
    using r1 [unfolded b1 dl] r2 [unfolded b1 b2 dl] c [unfolded two]
    by simp
qed

text \<open>
  Two \<^verbatim>\<open>set_status(RUNNING)\<close> calls on two registered observers that are not well behaved.
  When the first observer's \<^verbatim>\<open>update\<close> raises, both calls end with the exception and the
  dashboard has not been called at all. When the first observer unsubscribes in its
  \<^verbatim>\<open>update\<close>, the two calls make one delivery each.
\<close>

theorem consecutive_set_status_not_two_each:
  "set_status faulty_dispatch RUNNING main_world [] =
     Some (Inl NotImplementedError,
           \<lparr>machine = \<lparr>observers = [ObserverObj 0, ObserverObj 1], machine_id = ''CNC-001'',
                        status = RUNNING\<rparr>,
             console = [StatusChanged ''CNC-001'' ''running'']\<rparr>,
           [(ObserverObj 0, ''CNC-001'', RUNNING)])
   \<and> set_status faulty_dispatch RUNNING
       \<lparr>machine = \<lparr>observers = [ObserverObj 0, ObserverObj 1], machine_id = ''CNC-001'',
                    status = RUNNING\<rparr>,
         console = [StatusChanged ''CNC-001'' ''running'']\<rparr>
       [(ObserverObj 0, ''CNC-001'', RUNNING)] =
     Some (Inl NotImplementedError,
           \<lparr>machine = \<lparr>observers = [ObserverObj 0, ObserverObj 1], machine_id = ''CNC-001'',
                        status = RUNNING\<rparr>,
             console = [StatusChanged ''CNC-001'' ''running'', StatusChanged ''CNC-001'' ''running'']\<rparr>,
           [(ObserverObj 0, ''CNC-001'', RUNNING), (ObserverObj 0, ''CNC-001'', RUNNING)])
   \<and> set_status leaving_dispatch RUNNING main_world [] =
     Some (Inr (),
           \<lparr>machine = \<lparr>observers = [ObserverObj 1], machine_id = ''CNC-001'', status = RUNNING\<rparr>,
             console = [StatusChanged ''CNC-001'' ''running'']\<rparr>,
           [(ObserverObj 0, ''CNC-001'', RUNNING)])
   \<and> set_status leaving_dispatch RUNNING
       \<lparr>machine = \<lparr>observers = [ObserverObj 1], machine_id = ''CNC-001'', status = RUNNING\<rparr>,
         console = [StatusChanged ''CNC-001'' ''running'']\<rparr>
       [(ObserverObj 0, ''CNC-001'', RUNNING)] =
     Some (Inr (),
           \<lparr>machine = \<lparr>observers = [ObserverObj 1], machine_id = ''CNC-001'', status = RUNNING\<rparr>,
             console = [StatusChanged ''CNC-001'' ''running'', StatusChanged ''CNC-001'' ''running'',
                        DashboardUpdate ''CNC-001'' ''running'']\<rparr>,
           [(ObserverObj 0, ''CNC-001'', RUNNING), (ObserverObj 1, ''CNC-001'', RUNNING)])"
  by code_simp

subsection \<open>An observer registered twice\<close>

text \<open>
  Claim C9, as the code has it. Entries of the list are references and nothing removes a
  repeated one: both registrations of the same observer return \<^verbatim>\<open>True\<close>. When that observer
  and those already registered are well behaved (their \<^verbatim>\<open>update\<close> returns and leaves the
  machine as it is), the next broadcast calls \<^verbatim>\<open>update\<close> on the observers already registered
  and then twice on the new one, once for each of its two entries: two deliveries more than
  it had entries before.
\<close>

theorem registered_twice_notified_twice:
  assumes "\<forall>x \<in> set (observers (machine w)). well_behaved upd x"
    and "well_behaved upd (ObserverObj obj)"
  shows "fst (register_observer (ObserverObj obj) (machine w))
       \<and> fst (register_observer (ObserverObj obj) (snd (register_observer (ObserverObj obj) (machine w))))
       \<and> set_status upd st (w\<lparr>machine := register_twice (ObserverObj obj) (machine w)\<rparr>) [] =
           Some (Inr (),
                 snd (upd obj (machine_id (machine w)) st
                   (snd (upd obj (machine_id (machine w)) st
                     (updates_applied upd (machine_id (machine w)) st (observers (machine w))
                        (assign_status st (w\<lparr>machine := register_twice (ObserverObj obj) (machine w)\<rparr>)))))),
                 map (\<lambda>x. (x, machine_id (machine w), st))
                   (observers (machine w) @ [ObserverObj obj, ObserverObj obj]))
       \<and> count_list
           (delivered_to (set_status upd st (w\<lparr>machine := register_twice (ObserverObj obj) (machine w)\<rparr>) []))
           (ObserverObj obj) = count_list (observers (machine w)) (ObserverObj obj) + 2"
proof -
  let ?m = "register_twice (ObserverObj obj) (machine w)"
  let ?w = "w\<lparr>machine := ?m\<rparr>"
  have obs: "observers ?m = observers (machine w) @ [ObserverObj obj, ObserverObj obj]"
    and mid: "machine_id ?m = machine_id (machine w)"
    by (simp_all add: register_twice_def register_observer_def)
  have "\<forall>x \<in> set (observers (machine ?w)). well_behaved upd x"
    using assms by (auto simp: obs)
  from set_status_well_behaved(1) [OF this]
  have r: "set_status upd st ?w [] =
      Some (Inr (),
            snd (upd obj (machine_id (machine w)) st
              (snd (upd obj (machine_id (machine w)) st
                (updates_applied upd (machine_id (machine w)) st (observers (machine w))
                   (assign_status st ?w))))),
            map (\<lambda>x. (x, machine_id (machine w), st))
              (observers (machine w) @ [ObserverObj obj, ObserverObj obj]))"
    by (simp add: broadcast_result_def deliveries_of_def obs mid updates_applied_append)
  from r have "delivered_to (set_status upd st ?w []) =
      observers (machine w) @ [ObserverObj obj, ObserverObj obj]"
    by (simp add: delivered_to_def comp_def)
  then have "count_list (delivered_to (set_status upd st ?w [])) (ObserverObj obj) =
      count_list (observers (machine w)) (ObserverObj obj) + 2"
    by simp
  moreover have "fst (register_observer (ObserverObj obj) (machine w))"
    and "fst (register_observer (ObserverObj obj) (snd (register_observer (ObserverObj obj) (machine w))))"
    by (simp_all add: register_observer_def)
  ultimately show ?thesis using r by blast
qed

theorem registered_twice_notified_twice_witness:
  "set_status main_dispatch FAULT
     \<lparr>machine = register_twice (ObserverObj 1)
                  \<lparr>observers = [ObserverObj 0], machine_id = ''CNC-001'', status = IDLE\<rparr>,
       console = []\<rparr> [] =
     Some (Inr (),
           \<lparr>machine = \<lparr>observers = [ObserverObj 0, ObserverObj 1, ObserverObj 1],
                        machine_id = ''CNC-001'', status = FAULT\<rparr>,
             console = [StatusChanged ''CNC-001'' ''fault'', MaintenanceAlert ''CNC-001'',
                        DashboardUpdate ''CNC-001'' ''fault'', DashboardUpdate ''CNC-001'' ''fault'']\<rparr>,
           [(ObserverObj 0, ''CNC-001'', FAULT), (ObserverObj 1, ''CNC-001'', FAULT),
            (ObserverObj 1, ''CNC-001'', FAULT)])
   \<and> count_list
       (delivered_to (set_status main_dispatch FAULT
          \<lparr>machine = register_twice (ObserverObj 1)
                       \<lparr>observers = [ObserverObj 0], machine_id = ''CNC-001'', status = IDLE\<rparr>,
            console = []\<rparr> []))
       (ObserverObj 1) = 2"
proof -
  let ?w = "\<lparr>machine = \<lparr>observers = [ObserverObj 0], machine_id = ''CNC-001'', status = IDLE\<rparr>,
             console = []\<rparr>"
  have wb: "\<forall>x \<in> set (observers (machine ?w)). well_behaved main_dispatch x"
    by (simp add: main_dispatch_well_behaved)
  have one: "well_behaved main_dispatch (ObserverObj 1)"
    by (rule main_dispatch_well_behaved)
  have left: "snd (main_dispatch 1 (machine_id (machine ?w)) FAULT
      (snd (main_dispatch 1 (machine_id (machine ?w)) FAULT
        (updates_applied main_dispatch (machine_id (machine ?w)) FAULT (observers (machine ?w))
           (assign_status FAULT (?w\<lparr>machine := register_twice (ObserverObj 1) (machine ?w)\<rparr>)))))) =
      \<lparr>machine = \<lparr>observers = [ObserverObj 0, ObserverObj 1, ObserverObj 1],
                   machine_id = ''CNC-001'', status = FAULT\<rparr>,
        console = [StatusChanged ''CNC-001'' ''fault'', MaintenanceAlert ''CNC-001'',
                   DashboardUpdate ''CNC-001'' ''fault'', DashboardUpdate ''CNC-001'' ''fault'']\<rparr>"
    by (simp add: register_twice_def register_observer_def assign_status_def main_dispatch_def
          MaintenanceEngineer_update_def ProductionDashboard_update_def)
  show ?thesis
    using registered_twice_notified_twice [OF wb one, of FAULT]
    unfolding left by (simp add: delivered_to_def)
qed

text \<open>
  An observer registered twice that does not get two deliveries. The dashboard registered
  twice behind an observer whose \<^verbatim>\<open>update\<close> raises gets none. An observer that unsubscribes in
  its \<^verbatim>\<open>update\<close>, registered twice on a machine without observers, gets one.
\<close>

theorem registered_twice_notified_less:
  "set_status faulty_dispatch RUNNING
     \<lparr>machine = register_twice (ObserverObj 1)
                  \<lparr>observers = [ObserverObj 0], machine_id = ''CNC-001'', status = IDLE\<rparr>,
       console = []\<rparr> [] =
     Some (Inl NotImplementedError,
           \<lparr>machine = \<lparr>observers = [ObserverObj 0, ObserverObj 1, ObserverObj 1],
                        machine_id = ''CNC-001'', status = RUNNING\<rparr>,
             console = [StatusChanged ''CNC-001'' ''running'']\<rparr>,
           [(ObserverObj 0, ''CNC-001'', RUNNING)])
   \<and> set_status leaving_dispatch RUNNING
       \<lparr>machine = register_twice (ObserverObj 0) (Machine_init ''CNC-001''), console = []\<rparr> [] =
     Some (Inr (),
           \<lparr>machine = \<lparr>observers = [ObserverObj 0], machine_id = ''CNC-001'', status = RUNNING\<rparr>,
             console = [StatusChanged ''CNC-001'' ''running'']\<rparr>,
           [(ObserverObj 0, ''CNC-001'', RUNNING)])"
  by code_simp

end
